theory Spec2Isabelle
  imports Main "HOL-Library.Word"
begin

section \<open>The image editor session of \<^verbatim>\<open>App.tsx\<close>\<close>

text \<open>
  The component \<^verbatim>\<open>App\<close> holds six pieces of React state and four user-facing
  handlers. Two of the handlers are asynchronous: they start a file read or a call to the
  edit service and continue when the promise settles. The model keeps the component state
  in a record, every suspended continuation as a value of type \<open>pending\<close>, and the
  settlement of a promise as an event whose outcome is chosen by the environment (the
  browser's \<^verbatim>\<open>FileReader\<close> and the function \<^verbatim>\<open>editImageWithGemini\<close> are
  not part of the component).
\<close>

subsection \<open>Data\<close>

text \<open>A browser \<^verbatim>\<open>File\<close>: its bytes and its declared media type (\<^verbatim>\<open>file.type\<close>).\<close>

record image_file =
  content :: "8 word list"
  type :: string

text \<open>
  The \<^verbatim>\<open>useState\<close> cells of lines 16 to 21, in the order they are declared.
  \<^verbatim>\<open>null\<close> is \<open>None\<close>.
\<close>

record session =
  originalImage :: "string option"
  originalFile :: "image_file option"
  editedImage :: "string option"
  prompt :: string
  isLoading :: bool
  error :: "string option"

text \<open>The state of a freshly mounted component (the initial values of lines 16 to 21).\<close>

definition initial :: session where
  "initial = \<lparr>originalImage = None, originalFile = None, editedImage = None,
     prompt = [], isLoading = False, error = None\<rparr>"

text \<open>How a promise settles: fulfilled with a string, or rejected.\<close>

datatype outcome = Fulfilled string | Rejected

text \<open>
  The three places where a handler is suspended on a promise, with what the continuation
  has captured in its closure:
  \<^item> line 29, \<^verbatim>\<open>fileToBase64(file).then(setOriginalImage).catch(...)\<close>;
  \<^item> line 44, \<^verbatim>\<open>await fileToBase64(originalFile)\<close>, with the \<^verbatim>\<open>originalFile\<close>
    and \<^verbatim>\<open>prompt\<close> of the render that created the callback;
  \<^item> line 47, \<^verbatim>\<open>await editImageWithGemini(...)\<close>, with \<^verbatim>\<open>mimeType\<close>.
\<close>

datatype pending =
    AwaitUploadRead
  | AwaitGenerateRead image_file string
  | AwaitService string

text \<open>One call of \<^verbatim>\<open>editImageWithGemini(base64Data, mimeType, prompt)\<close>.
  \<^verbatim>\<open>base64Data\<close> is \<^verbatim>\<open>undefined\<close> (here \<open>None\<close>) when the data URL has no comma.\<close>

record service_call =
  base64Data :: "string option"
  mimeType :: string
  promptText :: string

subsection \<open>String helpers\<close>

text \<open>\<^verbatim>\<open>s.split(',')\<close>: the pieces between commas; a string without a comma is one
  piece, the empty string is one empty piece.\<close>

fun split_comma :: "string \<Rightarrow> string list" where
  "split_comma [] = [[]]"
| "split_comma (c # cs) =
     (if c = CHR '','' then [] # split_comma cs
      else (case split_comma cs of
              [] \<Rightarrow> [[c]]
            | p # ps \<Rightarrow> (c # p) # ps))"

text \<open>\<^verbatim>\<open>xs[i]\<close> on a JavaScript array: \<^verbatim>\<open>undefined\<close> out of range.\<close>

definition index :: "'a list \<Rightarrow> nat \<Rightarrow> 'a option" where
  "index xs i = (if i < length xs then Some (xs ! i) else None)"

text \<open>
  JavaScript truthiness of a value of type \<^verbatim>\<open>string | null\<close>, as
  \<^verbatim>\<open>!originalImage\<close> tests it (lines 59 and 74): \<^verbatim>\<open>null\<close> and the empty string
  are falsy, every other string is truthy.
\<close>

definition truthy :: "string option \<Rightarrow> bool" where
  "truthy v = (case v of None \<Rightarrow> False | Some t \<Rightarrow> t \<noteq> [])"

subsection \<open>Handlers\<close>

text \<open>
  \<^verbatim>\<open>handleImageUpload\<close> (lines 23 to 34). The argument is
  \<^verbatim>\<open>event.target.files?.[0]\<close>. The result is the state after the synchronous part and
  the continuations it leaves suspended.
\<close>

definition handleImageUpload :: "image_file option \<Rightarrow> session \<Rightarrow> session \<times> pending list" where
  "handleImageUpload fo s =
     (case fo of
        None \<Rightarrow> (s, [])
      | Some f \<Rightarrow>
          (s\<lparr>error := None, editedImage := None, originalFile := Some f\<rparr>,
           [AwaitUploadRead]))"

text \<open>
  \<^verbatim>\<open>handleGenerate\<close> (lines 36 to 57) up to its first \<^verbatim>\<open>await\<close>: the guard of
  line 37, the three setters of lines 39 to 41, and the start of the file read of line 44.
\<close>

definition handleGenerate :: "session \<Rightarrow> session \<times> pending list" where
  "handleGenerate s =
     (case originalFile s of
        None \<Rightarrow> (s, [])
      | Some f \<Rightarrow>
          if prompt s = [] then (s, [])
          else (s\<lparr>isLoading := True, error := None, editedImage := None\<rparr>,
                [AwaitGenerateRead f (prompt s)]))"

text \<open>\<^verbatim>\<open>isGenerateDisabled\<close> (line 59).\<close>

definition isGenerateDisabled :: "session \<Rightarrow> bool" where
  "isGenerateDisabled s = (isLoading s \<or> prompt s = [] \<or> \<not> truthy (originalImage s))"

text \<open>The \<^verbatim>\<open>onClick\<close> of the button labelled Start Over (lines 106 to 112).\<close>

definition startOver :: "session \<Rightarrow> session" where
  "startOver s = s\<lparr>originalImage := None, originalFile := None, editedImage := None,
     prompt := [], error := None\<rparr>"

text \<open>The \<^verbatim>\<open>onChange\<close> of the text area (line 91).\<close>

definition setPrompt :: "string \<Rightarrow> session \<Rightarrow> session" where
  "setPrompt t s = s\<lparr>prompt := t\<rparr>"

text \<open>The two messages of lines 31 and 53.\<close>

definition loadFailedMessage :: string where
  "loadFailedMessage = ''Failed to load image. Please try another file.''"

definition generateFailedMessage :: string where
  "generateFailedMessage =
     ''Failed to generate image. The model may be overloaded. Please try again later.''"

text \<open>
  What a suspended continuation does when its promise settles: the new state, the
  continuations it suspends in turn, and the calls it makes to the edit service.
  \<^item> Line 29: fulfilled, \<^verbatim>\<open>setOriginalImage\<close>; rejected, \<^verbatim>\<open>setError\<close> of line 31.
  \<^item> Line 44: fulfilled, lines 44 to 47 run up to the call of the service; rejected, the
    \<^verbatim>\<open>catch\<close> and \<^verbatim>\<open>finally\<close> blocks of lines 51 to 56 run.
  \<^item> Line 47: fulfilled, line 49 and the \<^verbatim>\<open>finally\<close> block; rejected, \<^verbatim>\<open>catch\<close>
    and \<^verbatim>\<open>finally\<close>.
\<close>

fun resume :: "pending \<Rightarrow> outcome \<Rightarrow> session \<Rightarrow> session \<times> pending list \<times> service_call list" where
  "resume AwaitUploadRead (Fulfilled url) s = (s\<lparr>originalImage := Some url\<rparr>, [], [])"
| "resume AwaitUploadRead Rejected s = (s\<lparr>error := Some loadFailedMessage\<rparr>, [], [])"
| "resume (AwaitGenerateRead f p) (Fulfilled url) s =
     (s, [AwaitService (type f)],
      [\<lparr>base64Data = index (split_comma url) 1, mimeType = type f, promptText = p\<rparr>])"
| "resume (AwaitGenerateRead f p) Rejected s =
     (s\<lparr>error := Some generateFailedMessage, isLoading := False\<rparr>, [], [])"
| "resume (AwaitService m) (Fulfilled b) s =
     (s\<lparr>editedImage := Some (''data:'' @ m @ '';base64,'' @ b), isLoading := False\<rparr>, [], [])"
| "resume (AwaitService m) Rejected s =
     (s\<lparr>error := Some generateFailedMessage, isLoading := False\<rparr>, [], [])"

subsection \<open>The running component\<close>

text \<open>
  The component together with its suspended continuations and the log of the calls made
  to the edit service so far.
\<close>

record world =
  sess :: session
  pendings :: "pending list"
  calls :: "service_call list"

definition start :: world where
  "start = \<lparr>sess = initial, pendings = [], calls = []\<rparr>"

text \<open>
  What can happen to a mounted component: the user picks a file, types in the text area,
  clicks Generate or Start Over, or the promise of the \<open>i\<close>-th suspended continuation
  settles.
\<close>

datatype event =
    SelectImage "image_file option"
  | EditPrompt string
  | ClickGenerate
  | ClickStartOver
  | Settle nat outcome

text \<open>
  One event. The controls exist as the JSX renders them: the file input only while
  \<^verbatim>\<open>!originalImage\<close> holds (lines 74 and 75), the text area, the Generate button
  and the Start Over button only otherwise; the text area is disabled while
  \<^verbatim>\<open>isLoading\<close> (line 94) and the Generate button while \<^verbatim>\<open>isGenerateDisabled\<close>
  (line 98). An event on a control that is absent or disabled does nothing.
\<close>

fun step :: "world \<Rightarrow> event \<Rightarrow> world" where
  "step w (SelectImage fo) =
     (if \<not> truthy (originalImage (sess w))
      then (case handleImageUpload fo (sess w) of
              (s', ts) \<Rightarrow> w\<lparr>sess := s', pendings := pendings w @ ts\<rparr>)
      else w)"
| "step w (EditPrompt t) =
     (if truthy (originalImage (sess w)) \<and> \<not> isLoading (sess w)
      then w\<lparr>sess := setPrompt t (sess w)\<rparr>
      else w)"
| "step w ClickGenerate =
     (if truthy (originalImage (sess w)) \<and> \<not> isGenerateDisabled (sess w)
      then (case handleGenerate (sess w) of
              (s', ts) \<Rightarrow> w\<lparr>sess := s', pendings := pendings w @ ts\<rparr>)
      else w)"
| "step w ClickStartOver =
     (if truthy (originalImage (sess w))
      then w\<lparr>sess := startOver (sess w)\<rparr>
      else w)"
| "step w (Settle i out) =
     (if i < length (pendings w)
      then (case resume (pendings w ! i) out (sess w) of
              (s', ts, cs) \<Rightarrow>
                w\<lparr>sess := s',
                  pendings := take i (pendings w) @ drop (Suc i) (pendings w) @ ts,
                  calls := calls w @ cs\<rparr>)
      else w)"

text \<open>A sequence of events, from left to right.\<close>

definition run :: "world \<Rightarrow> event list \<Rightarrow> world" where
  "run w evs = foldl step w evs"

text \<open>A continuation of \<^verbatim>\<open>handleGenerate\<close>: the request is between dispatch and
  resolution.\<close>

fun isGenerateRequest :: "pending \<Rightarrow> bool" where
  "isGenerateRequest AwaitUploadRead = False"
| "isGenerateRequest (AwaitGenerateRead f p) = True"
| "isGenerateRequest (AwaitService m) = True"

definition generating :: "world \<Rightarrow> bool" where
  "generating w = list_ex isGenerateRequest (pendings w)"

text \<open>
  \<^verbatim>\<open>handleGenerate\<close> run to its end with nothing else happening in between: the file
  read settles with \<open>rd\<close> and, when the service is called, the call settles with
  \<open>sv\<close>. The result is the final state and the calls made to the service.
\<close>

definition handleGenerate_run :: "session \<Rightarrow> outcome \<Rightarrow> outcome \<Rightarrow> session \<times> service_call list" where
  "handleGenerate_run s rd sv =
     (case handleGenerate s of
        (s1, []) \<Rightarrow> (s1, [])
      | (s1, t # _) \<Rightarrow>
          (case resume t rd s1 of
             (s2, [], cs) \<Rightarrow> (s2, cs)
           | (s2, t' # _, cs) \<Rightarrow>
               (case resume t' sv s2 of (s3, _, cs') \<Rightarrow> (s3, cs @ cs'))))"

subsection \<open>Invariants of the running component\<close>

text \<open>The number of \<^verbatim>\<open>handleGenerate\<close> requests between dispatch and resolution.\<close>

definition requests :: "world \<Rightarrow> nat" where
  "requests w = length (filter isGenerateRequest (pendings w))"

text \<open>There is one request in flight while \<^verbatim>\<open>isLoading\<close>, and none otherwise.\<close>

definition oneRequest :: "world \<Rightarrow> bool" where
  "oneRequest w = (requests w = (if isLoading (sess w) then 1 else 0))"



text \<open>
  The event rejects a suspended file read of \<^verbatim>\<open>handleImageUpload\<close>, so that the
  \<^verbatim>\<open>catch\<close> of lines 29 to 32 runs.
\<close>

fun uploadReadFails :: "world \<Rightarrow> event \<Rightarrow> bool" where
  "uploadReadFails w (Settle i Rejected) =
     (i < length (pendings w) \<and> pendings w ! i = AwaitUploadRead)"
| "uploadReadFails w e = False"

text \<open>
  Along the events \<open>evs\<close> from \<open>w\<close>, no file read of \<^verbatim>\<open>handleImageUpload\<close>
  fails while a request of \<^verbatim>\<open>handleGenerate\<close> is between dispatch and resolution.
\<close>

fun noUploadFailureInFlight :: "world \<Rightarrow> event list \<Rightarrow> bool" where
  "noUploadFailureInFlight w [] = True"
| "noUploadFailureInFlight w (e # es) =
     (\<not> (generating w \<and> uploadReadFails w e) \<and> noUploadFailureInFlight (step w e) es)"

subsection \<open>Concrete sessions\<close>

text \<open>A PNG file (its first bytes are the PNG signature), a GIF file, and the data URL
  a file read may produce.\<close>

definition pngFile :: image_file where
  "pngFile = \<lparr>content = [0x89, 0x50, 0x4E, 0x47], type = ''image/png''\<rparr>"

definition gifFile :: image_file where
  "gifFile = \<lparr>content = [0x47, 0x49, 0x46], type = ''image/gif''\<rparr>"

definition pngUrl :: string where
  "pngUrl = ''data:image/png;base64,iVBORw==''"


text \<open>The user picks the PNG file, the read succeeds, the user types a prompt.\<close>

definition readyEvents :: "event list" where
  "readyEvents = [SelectImage (Some pngFile), Settle 0 (Fulfilled pngUrl), EditPrompt ''add a hat'']"

text \<open>Then the user clicks Generate.\<close>

definition generateEvents :: "event list" where
  "generateEvents = readyEvents @ [ClickGenerate]"

text \<open>
  While the request is in flight the user clicks Start Over and picks the GIF file; the
  read of the GIF file fails; the file read of the request succeeds and the service is
  called. The request now waits for the service.
\<close>

definition raceEvents :: "event list" where
  "raceEvents = generateEvents @
     [ClickStartOver, SelectImage (Some gifFile), Settle 1 Rejected, Settle 0 (Fulfilled pngUrl)]"


text \<open>The user picks the PNG file and the read fails.\<close>

definition failedUploadEvents :: "event list" where
  "failedUploadEvents = [SelectImage (Some pngFile), Settle 0 Rejected]"

text \<open>
  The user picks the PNG file and, before its read has settled, the GIF file; the read of
  the PNG file succeeds, the user types a prompt, and the read of the GIF file fails.
\<close>

definition secondUploadFailsEvents :: "event list" where
  "secondUploadFailsEvents =
     [SelectImage (Some pngFile), SelectImage (Some gifFile), Settle 0 (Fulfilled pngUrl),
      EditPrompt ''add a hat'', Settle 0 Rejected]"

text \<open>The user clicks Generate and the file read of the request fails.\<close>

definition encodingFailsEvents :: "event list" where
  "encodingFailsEvents = generateEvents @ [Settle 0 Rejected]"

text \<open>The user clicks Generate, the file read succeeds and the service answers.\<close>

definition successEvents :: "event list" where
  "successEvents = generateEvents @ [Settle 0 (Fulfilled pngUrl), Settle 0 (Fulfilled ''QUJD'')]"

section \<open>Properties\<close>

subsection \<open>Truthiness\<close>

lemma truthy_None: "\<not> truthy None"
  by (simp add: truthy_def)

lemma truthy_Some: "truthy (Some t) = (t \<noteq> [])"
  by (simp add: truthy_def)

lemma truthy_pngUrl: "truthy (Some pngUrl)"
  by (simp add: truthy_def pngUrl_def)

subsection \<open>Running a sequence of events\<close>

lemma run_Nil: "run w [] = w"
  by (simp add: run_def)

lemma run_snoc: "run w (evs @ [e]) = step (run w evs) e"
  by (simp add: run_def)


subsection \<open>What a settled promise does to the request count\<close>

lemma filter_remove_nth:
  assumes "i < length xs"
  shows "length (filter P xs) =
         length (filter P (take i xs @ drop (Suc i) xs)) + (if P (xs ! i) then 1 else 0)"
proof -
  have "xs = take i xs @ xs ! i # drop (Suc i) xs"
    using assms by (rule id_take_nth_drop)
  then have "filter P xs = filter P (take i xs @ xs ! i # drop (Suc i) xs)"
    by simp
  then show ?thesis by simp
qed

lemma resume_upload:
  "\<not> isGenerateRequest t \<Longrightarrow> resume t out s = (s', ts, cs) \<Longrightarrow>
     isLoading s' = isLoading s \<and> ts = [] \<and> editedImage s' = editedImage s"
  by (cases t; cases out) auto

lemma resume_generate:
  "isGenerateRequest t \<Longrightarrow> resume t out s = (s', ts, cs) \<Longrightarrow>
     (ts = [] \<and> \<not> isLoading s') \<or>
     (length ts = 1 \<and> list_all isGenerateRequest ts \<and> s' = s)"
  by (cases t; cases out) auto

lemma step_Settle:
  assumes "i < length (pendings w)"
    and "resume (pendings w ! i) out (sess w) = (s', ts, cs)"
  shows "step w (Settle i out) =
         w\<lparr>sess := s',
           pendings := (take i (pendings w) @ drop (Suc i) (pendings w)) @ ts,
           calls := calls w @ cs\<rparr>"
  using assms by simp

subsection \<open>At most one request is in flight\<close>

lemma oneRequest_step: "oneRequest w \<Longrightarrow> oneRequest (step w e)"
proof (cases e)
  case (SelectImage fo)
  assume "oneRequest w"
  then show ?thesis using SelectImage
    by (cases fo) (auto simp: oneRequest_def requests_def handleImageUpload_def)
next
  case (EditPrompt t)
  assume "oneRequest w"
  then show ?thesis using EditPrompt
    by (auto simp: oneRequest_def requests_def setPrompt_def)
next
  case ClickGenerate
  assume "oneRequest w"
  then show ?thesis using ClickGenerate
    by (auto simp: oneRequest_def requests_def handleGenerate_def isGenerateDisabled_def
        split: option.splits)
next
  case ClickStartOver
  assume "oneRequest w"
  then show ?thesis using ClickStartOver
    by (auto simp: oneRequest_def requests_def startOver_def)
next
  case (Settle i out)
  assume inv: "oneRequest w"
  show ?thesis
  proof (cases "i < length (pendings w)")
    case False
    then show ?thesis using inv Settle by simp
  next
    case True
    obtain s' ts cs where r: "resume (pendings w ! i) out (sess w) = (s', ts, cs)"
      by (cases "resume (pendings w ! i) out (sess w)") auto
    let ?rest = "take i (pendings w) @ drop (Suc i) (pendings w)"
    have cnt: "requests w = length (filter isGenerateRequest ?rest) +
        (if isGenerateRequest (pendings w ! i) then 1 else 0)"
      unfolding requests_def using True by (rule filter_remove_nth)
    have st: "step w e = w\<lparr>sess := s', pendings := ?rest @ ts, calls := calls w @ cs\<rparr>"
      unfolding Settle using True r by (rule step_Settle)
    show ?thesis
    proof (cases "isGenerateRequest (pendings w ! i)")
      case False
      from resume_upload [OF False r] cnt inv False show ?thesis
        by (simp add: st oneRequest_def requests_def)
    next
      case g: True
      from cnt g inv have l: "isLoading (sess w)"
        and z: "length (filter isGenerateRequest ?rest) = 0"
        by (auto simp: oneRequest_def split: if_splits)
      from resume_generate [OF g r] show ?thesis
      proof
        assume "ts = [] \<and> \<not> isLoading s'"
        then show ?thesis using z by (simp add: st oneRequest_def requests_def)
      next
        assume a: "length ts = 1 \<and> list_all isGenerateRequest ts \<and> s' = sess w"
        then obtain t' where "ts = [t']" "isGenerateRequest t'"
          by (cases ts) auto
        then show ?thesis using z l a by (simp add: st oneRequest_def requests_def)
      qed
    qed
  qed
qed

lemma oneRequest_run: "oneRequest w \<Longrightarrow> oneRequest (run w evs)"
  by (induction evs rule: rev_induct) (simp_all add: run_Nil run_snoc oneRequest_step)

lemma oneRequest_start: "oneRequest start"
  by (simp add: oneRequest_def requests_def start_def initial_def)

lemma generating_requests: "generating w = (0 < requests w)"
  by (simp add: generating_def requests_def list_ex_iff filter_empty_conv)

subsection \<open>No result is held while a request is in flight\<close>





subsection \<open>No error is held while a request is in flight and no upload read fails\<close>





subsection \<open>The concrete sessions, evaluated\<close>

lemma run_readyEvents:
  "run start readyEvents =
     \<lparr>sess = \<lparr>originalImage = Some pngUrl, originalFile = Some pngFile, editedImage = None,
         prompt = ''add a hat'', isLoading = False, error = None\<rparr>,
      pendings = [], calls = []\<rparr>"
  by (simp add: readyEvents_def run_def start_def initial_def handleImageUpload_def
      setPrompt_def truthy_None truthy_pngUrl)

lemma run_generateEvents:
  "run start generateEvents =
     \<lparr>sess = \<lparr>originalImage = Some pngUrl, originalFile = Some pngFile, editedImage = None,
         prompt = ''add a hat'', isLoading = True, error = None\<rparr>,
      pendings = [AwaitGenerateRead pngFile ''add a hat''], calls = []\<rparr>"
  by (simp add: generateEvents_def run_snoc run_readyEvents handleGenerate_def
      isGenerateDisabled_def truthy_pngUrl)

lemma split_comma_pngUrl: "index (split_comma pngUrl) (Suc 0) = Some ''iVBORw==''"
  by (simp add: pngUrl_def index_def)




lemma run_successEvents:
  "run start successEvents =
     \<lparr>sess = \<lparr>originalImage = Some pngUrl, originalFile = Some pngFile,
         editedImage = Some ''data:image/png;base64,QUJD'',
         prompt = ''add a hat'', isLoading = False, error = None\<rparr>,
      pendings = [],
      calls = [\<lparr>base64Data = Some ''iVBORw=='', mimeType = ''image/png'',
                promptText = ''add a hat''\<rparr>]\<rparr>"
  by (simp add: successEvents_def run_def [of _ "_ @ _"] run_generateEvents [unfolded run_def]
      split_comma_pngUrl pngFile_def)

lemma run_encodingFailsEvents:
  "run start encodingFailsEvents =
     \<lparr>sess = \<lparr>originalImage = Some pngUrl, originalFile = Some pngFile, editedImage = None,
         prompt = ''add a hat'', isLoading = False, error = Some generateFailedMessage\<rparr>,
      pendings = [], calls = []\<rparr>"
  by (simp add: encodingFailsEvents_def run_snoc run_generateEvents)

lemma run_failedUploadEvents:
  "run start failedUploadEvents =
     \<lparr>sess = \<lparr>originalImage = None, originalFile = Some pngFile, editedImage = None,
         prompt = [], isLoading = False, error = Some loadFailedMessage\<rparr>,
      pendings = [], calls = []\<rparr>"
  by (simp add: failedUploadEvents_def run_def start_def initial_def handleImageUpload_def
      truthy_None)

lemma run_secondUploadFailsEvents:
  "run start secondUploadFailsEvents =
     \<lparr>sess = \<lparr>originalImage = Some pngUrl, originalFile = Some gifFile, editedImage = None,
         prompt = ''add a hat'', isLoading = False, error = Some loadFailedMessage\<rparr>,
      pendings = [], calls = []\<rparr>"
  by (simp add: secondUploadFailsEvents_def run_def start_def initial_def handleImageUpload_def
      setPrompt_def truthy_None truthy_pngUrl)

subsection \<open>An uninterrupted request\<close>

text \<open>
  \<open>handleGenerate_run\<close> is what the running component does when the button is
  enabled, nothing else is suspended, and the click is followed by the settlements of
  the request alone.
\<close>

lemma handleGenerate_run_uninterrupted:
  assumes "pendings w = []"
    and "\<not> isGenerateDisabled (sess w)"
  shows "sess (run w [ClickGenerate, Settle 0 rd, Settle 0 sv]) =
           fst (handleGenerate_run (sess w) rd sv) \<and>
         calls (run w [ClickGenerate, Settle 0 rd, Settle 0 sv]) =
           calls w @ snd (handleGenerate_run (sess w) rd sv)"
proof (cases "originalFile (sess w)")
  case None
  then show ?thesis
    using assms by (simp add: run_def handleGenerate_run_def handleGenerate_def
        isGenerateDisabled_def)
next
  case (Some f)
  have p: "prompt (sess w) \<noteq> []"
    using assms(2) by (simp add: isGenerateDisabled_def)
  show ?thesis
    using assms Some p
    by (cases rd; cases sv)
      (simp_all add: run_def handleGenerate_run_def handleGenerate_def isGenerateDisabled_def)
qed

section \<open>The session lifecycle\<close>

subsection \<open>Generate while a request is in flight\<close>

text \<open>
  The guard of \<^verbatim>\<open>handleGenerate\<close> (line 37) looks at \<^verbatim>\<open>originalFile\<close> and
  \<^verbatim>\<open>prompt\<close> only: called directly while \<^verbatim>\<open>isLoading\<close>, it would dispatch again.
  What keeps a second request from being dispatched is the \<^verbatim>\<open>disabled\<close> attribute of
  the button (line 98).
\<close>

lemma handleGenerate_guard_ignores_isLoading:
  "isLoading (sess (run start generateEvents)) \<and>
   snd (handleGenerate (sess (run start generateEvents))) = [AwaitGenerateRead pngFile ''add a hat'']"
  by (simp add: run_generateEvents handleGenerate_def)

text \<open>
  Claim C1. Clicking Generate while \<^verbatim>\<open>isLoading\<close> is true does nothing: the session
  state, the suspended continuations and the log of calls to the edit service are all
  unchanged, in every state of the component with \<^verbatim>\<open>isLoading\<close> true.
\<close>

theorem generate_while_loading_noop:
  "isLoading (sess w) \<Longrightarrow> step w ClickGenerate = w"
  by (simp add: isGenerateDisabled_def)

theorem generate_while_loading_noop_witness:
  "isLoading (sess (run start generateEvents)) \<and>
   step (run start generateEvents) ClickGenerate = run start generateEvents"
proof -
  have h: "isLoading (sess (run start generateEvents))"
    by (simp add: run_generateEvents)
  from h generate_while_loading_noop [OF h] show ?thesis
    by simp
qed

subsection \<open>Generate without an image or without a prompt\<close>

text \<open>
  Claim C2. With no file selected or with an empty prompt, \<^verbatim>\<open>handleGenerate\<close> returns
  at its guard: the state is unchanged and nothing is suspended, so no call to the edit
  service can follow. The same holds for a click on the button, also when no image is
  displayed (\<^verbatim>\<open>originalImage\<close> is \<^verbatim>\<open>null\<close>): the component, its suspended
  continuations and its call log are unchanged.
\<close>

theorem generate_without_image_or_prompt_noop:
  "(originalFile s = None \<or> prompt s = [] \<longrightarrow> handleGenerate s = (s, [])) \<and>
   (originalImage (sess w) = None \<or> originalFile (sess w) = None \<or> prompt (sess w) = []
      \<longrightarrow> step w ClickGenerate = w)"
  by (auto simp: handleGenerate_def isGenerateDisabled_def truthy_None split: option.splits)

theorem generate_without_image_or_prompt_noop_witness:
  "originalFile initial = None \<and> handleGenerate initial = (initial, []) \<and>
   prompt (sess (run start failedUploadEvents)) = [] \<and>
   originalFile (sess (run start failedUploadEvents)) = Some pngFile \<and>
   step (run start failedUploadEvents) ClickGenerate = run start failedUploadEvents"
  using generate_without_image_or_prompt_noop [of initial "run start failedUploadEvents"]
  by (simp add: initial_def failedUploadEvents_def run_def start_def handleImageUpload_def
      truthy_None)

subsection \<open>Result and error\<close>


lemma raceEvents_upload_fails_in_flight: "\<not> noUploadFailureInFlight start raceEvents"
  by (simp add: raceEvents_def generateEvents_def readyEvents_def start_def initial_def
      handleImageUpload_def handleGenerate_def setPrompt_def startOver_def
      isGenerateDisabled_def generating_def truthy_None truthy_pngUrl)



subsection \<open>The in-flight flag\<close>

text \<open>
  Claim C4. After every sequence of events of a freshly mounted component (selections,
  prompt edits, clicks on Generate and Start Over, settlements of pending promises in
  any order and with any outcome), \<^verbatim>\<open>isLoading\<close> is true exactly when a request of
  \<^verbatim>\<open>handleGenerate\<close> has been dispatched and has not resolved yet.
\<close>

theorem isLoading_iff_generating:
  "isLoading (sess (run start evs)) = generating (run start evs)"
proof -
  have "oneRequest (run start evs)"
    using oneRequest_start by (rule oneRequest_run)
  then show ?thesis
    by (simp add: generating_requests oneRequest_def split: if_splits)
qed

theorem isLoading_iff_generating_witness:
  "isLoading (sess (run start generateEvents)) \<and> generating (run start generateEvents) \<and>
   \<not> isLoading (sess (run start encodingFailsEvents)) \<and>
   \<not> generating (run start encodingFailsEvents)"
  using isLoading_iff_generating [of generateEvents]
    isLoading_iff_generating [of encodingFailsEvents]
  by (simp add: run_generateEvents encodingFailsEvents_def run_snoc)

text \<open>
  Claim C5. Whichever way a dispatched request resolves, \<^verbatim>\<open>isLoading\<close> is false
  afterwards, from any state the resolution finds: when the file read fails before the
  service is called, when the service call succeeds and when it fails. A successful file
  read is not yet a resolution: it calls the service and waits again. Run to its end
  from a state that passes the guard, \<^verbatim>\<open>handleGenerate\<close> leaves \<^verbatim>\<open>isLoading\<close> false
  for every pair of outcomes.
\<close>

theorem isLoading_cleared_on_resolution:
  "\<not> isLoading (fst (resume (AwaitGenerateRead f p) Rejected s)) \<and>
   \<not> isLoading (fst (resume (AwaitService m) (Fulfilled b) s)) \<and>
   \<not> isLoading (fst (resume (AwaitService m) Rejected s)) \<and>
   (isGenerateRequest t \<and> fst (snd (resume t out s)) = [] \<longrightarrow>
      \<not> isLoading (fst (resume t out s))) \<and>
   (originalFile s = Some f \<and> prompt s \<noteq> [] \<longrightarrow>
      \<not> isLoading (fst (handleGenerate_run s rd sv)))"
proof -
  have one: "\<not> isLoading (fst (resume t out s))"
    if "isGenerateRequest t" "fst (snd (resume t out s)) = []"
    using that by (cases t; cases out) simp_all
  have all: "\<not> isLoading (fst (handleGenerate_run s rd sv))"
    if "originalFile s = Some f" "prompt s \<noteq> []"
    using that by (cases rd; cases sv) (simp_all add: handleGenerate_run_def handleGenerate_def)
  show ?thesis
    using one all by simp
qed

theorem isLoading_cleared_on_resolution_witness:
  "isGenerateRequest (AwaitService ''image/png'') \<and>
   fst (snd (resume (AwaitService ''image/png'') Rejected (sess (run start generateEvents)))) = [] \<and>
   isLoading (sess (run start generateEvents)) \<and>
   \<not> isLoading (fst (resume (AwaitService ''image/png'') Rejected (sess (run start generateEvents)))) \<and>
   originalFile (sess (run start readyEvents)) = Some pngFile \<and>
   prompt (sess (run start readyEvents)) \<noteq> [] \<and>
   \<not> isLoading (fst (handleGenerate_run (sess (run start readyEvents)) Rejected Rejected))"
  using isLoading_cleared_on_resolution [of pngFile "''add a hat''"
      "sess (run start generateEvents)" "''image/png''" "''QUJD''"
      "AwaitService ''image/png''" Rejected]
    isLoading_cleared_on_resolution [of pngFile "''add a hat''"
      "sess (run start readyEvents)" "''image/png''" "''QUJD''"
      "AwaitService ''image/png''" Rejected Rejected Rejected]
  by (simp add: run_readyEvents run_generateEvents)

subsection \<open>Start Over\<close>

text \<open>
  Claim C6, as stated, fails: Start Over clicked while a request is in flight does not
  yield the state of a session with nothing selected and nothing going on. After
  \<open>generateEvents\<close> and the click, \<^verbatim>\<open>isLoading\<close> is still true and the request
  is still between dispatch and resolution.
\<close>

theorem startOver_in_flight_stays_generating:
  "isLoading (sess (step (run start generateEvents) ClickStartOver)) \<and>
   generating (step (run start generateEvents) ClickStartOver) \<and>
   sess (step (run start generateEvents) ClickStartOver) \<noteq> initial"
  by (simp add: run_generateEvents startOver_def generating_def initial_def truthy_pngUrl)

text \<open>
  Claim C6, amended. From any session state, the Start Over handler leaves no image
  selected (neither \<^verbatim>\<open>originalImage\<close> nor \<^verbatim>\<open>originalFile\<close>), an empty prompt, no
  result and no error, and leaves \<^verbatim>\<open>isLoading\<close> as it is: the state it yields is the
  initial, empty one exactly when \<^verbatim>\<open>isLoading\<close> was false. Whenever the button is
  rendered, a click runs the handler; a click never changes the suspended continuations
  or the call log, so a request in flight stays in flight.
\<close>

theorem startOver_clears_fields:
  "originalImage (startOver s) = None \<and> originalFile (startOver s) = None \<and>
   prompt (startOver s) = [] \<and> editedImage (startOver s) = None \<and>
   error (startOver s) = None \<and> isLoading (startOver s) = isLoading s \<and>
   (startOver s = initial) = (\<not> isLoading s) \<and>
   (truthy (originalImage (sess w)) \<longrightarrow>
      step w ClickStartOver = w\<lparr>sess := startOver (sess w)\<rparr>) \<and>
   pendings (step w ClickStartOver) = pendings w \<and>
   calls (step w ClickStartOver) = calls w \<and>
   generating (step w ClickStartOver) = generating w"
proof -
  have "(startOver s = initial) = (\<not> isLoading s)"
    by (cases s) (auto simp: startOver_def initial_def)
  then show ?thesis
    by (simp add: startOver_def generating_def)
qed

theorem startOver_clears_fields_witness:
  "truthy (originalImage (sess (run start generateEvents))) \<and>
   sess (step (run start generateEvents) ClickStartOver) =
     \<lparr>originalImage = None, originalFile = None, editedImage = None, prompt = [],
      isLoading = True, error = None\<rparr> \<and>
   \<not> isLoading (sess (run start successEvents)) \<and>
   startOver (sess (run start successEvents)) = initial"
  using startOver_clears_fields [of "sess (run start generateEvents)" "run start generateEvents"]
    startOver_clears_fields [of "sess (run start successEvents)" "run start successEvents"]
  by (simp add: run_generateEvents run_successEvents startOver_def initial_def truthy_pngUrl)

subsection \<open>A file that cannot be read\<close>

text \<open>
  Claim C7, as stated, fails: a failed read of the selected file reports an error and
  clears nothing. After \<open>failedUploadEvents\<close> the file that could not be read is still
  the selected \<^verbatim>\<open>originalFile\<close>; after \<open>secondUploadFailsEvents\<close> the image
  displayed, the selected file and the prompt are all still there.
\<close>

theorem failed_read_keeps_selection:
  "originalFile (sess (run start failedUploadEvents)) = Some pngFile \<and>
   error (sess (run start failedUploadEvents)) = Some loadFailedMessage \<and>
   originalImage (sess (run start secondUploadFailsEvents)) = Some pngUrl \<and>
   originalFile (sess (run start secondUploadFailsEvents)) = Some gifFile \<and>
   prompt (sess (run start secondUploadFailsEvents)) = ''add a hat'' \<and>
   error (sess (run start secondUploadFailsEvents)) = Some loadFailedMessage"
  by (simp add: run_failedUploadEvents run_secondUploadFailsEvents)

text \<open>
  Claim C7, amended. Selecting a file clears the prior result and error and records the
  file; when its read fails, the error message of line 31 is set and nothing else
  changes: the file stays selected, and the displayed image, the prompt and
  \<^verbatim>\<open>isLoading\<close> are as they were before the selection. Nothing stays suspended and
  the service is not called.
\<close>

theorem failed_read_reports_error:
  "handleImageUpload (Some f) s =
     (s\<lparr>error := None, editedImage := None, originalFile := Some f\<rparr>, [AwaitUploadRead]) \<and>
   resume AwaitUploadRead Rejected s1 = (s1\<lparr>error := Some loadFailedMessage\<rparr>, [], []) \<and>
   fst (resume AwaitUploadRead Rejected (fst (handleImageUpload (Some f) s))) =
     s\<lparr>error := Some loadFailedMessage, editedImage := None, originalFile := Some f\<rparr>"
  by (simp add: handleImageUpload_def)

theorem failed_read_reports_error_witness:
  "fst (resume AwaitUploadRead Rejected (fst (handleImageUpload (Some gifFile)
       (sess (run start successEvents))))) =
     \<lparr>originalImage = Some pngUrl, originalFile = Some gifFile, editedImage = None,
      prompt = ''add a hat'', isLoading = False, error = Some loadFailedMessage\<rparr>"
  using failed_read_reports_error [of gifFile "sess (run start successEvents)"]
  by (simp add: run_successEvents)

subsection \<open>Calls to the edit service\<close>

text \<open>
  Claim C9, as stated, fails: an invocation of \<^verbatim>\<open>handleGenerate\<close> that passes its
  guard makes no call at all when the file read of line 44 fails. After
  \<open>encodingFailsEvents\<close> the request has been dispatched and has resolved, and the
  call log is empty.
\<close>

theorem encoding_failure_makes_no_call:
  "pendings (run start generateEvents) = [AwaitGenerateRead pngFile ''add a hat''] \<and>
   calls (run start encodingFailsEvents) = [] \<and>
   pendings (run start encodingFailsEvents) = [] \<and>
   error (sess (run start encodingFailsEvents)) = Some generateFailedMessage"
  by (simp add: run_generateEvents run_encodingFailsEvents)

text \<open>
  Claim C9, amended. An invocation of \<^verbatim>\<open>handleGenerate\<close> that passes its guard calls
  the edit service at most once: exactly once when the file read succeeds, with the part
  of the data URL after the first comma, the file's media type and the prompt, whether
  the service then succeeds or fails; and not at all when the file read fails. The
  continuation that waits for the service makes no further call and suspends nothing,
  on either outcome.
\<close>

theorem at_most_one_service_call:
  "(originalFile s = Some f \<and> prompt s \<noteq> [] \<longrightarrow>
      snd (handleGenerate_run s (Fulfilled url) sv) =
        [\<lparr>base64Data = index (split_comma url) 1, mimeType = type f,
          promptText = prompt s\<rparr>] \<and>
      snd (handleGenerate_run s Rejected sv) = []) \<and>
   snd (resume (AwaitService m) out s2) = ([], []) \<and>
   length (snd (snd (resume t out s2))) \<le> 1"
proof -
  have run: "snd (handleGenerate_run s (Fulfilled url) sv) =
        [\<lparr>base64Data = index (split_comma url) 1, mimeType = type f,
          promptText = prompt s\<rparr>] \<and>
      snd (handleGenerate_run s Rejected sv) = []"
    if "originalFile s = Some f" "prompt s \<noteq> []"
    using that by (cases sv) (simp_all add: handleGenerate_run_def handleGenerate_def)
  have service: "snd (resume (AwaitService m) out s2) = ([], [])"
    by (cases out) simp_all
  have any: "length (snd (snd (resume t out s2))) \<le> 1"
    by (cases t; cases out) simp_all
  show ?thesis
    using run service any by simp
qed

theorem at_most_one_service_call_witness:
  "originalFile (sess (run start readyEvents)) = Some pngFile \<and>
   prompt (sess (run start readyEvents)) \<noteq> [] \<and>
   snd (handleGenerate_run (sess (run start readyEvents)) (Fulfilled pngUrl) Rejected) =
     [\<lparr>base64Data = Some ''iVBORw=='', mimeType = ''image/png'', promptText = ''add a hat''\<rparr>] \<and>
   snd (handleGenerate_run (sess (run start readyEvents)) Rejected Rejected) = []"
  using at_most_one_service_call [of "sess (run start readyEvents)" pngFile pngUrl Rejected]
  by (simp add: run_readyEvents split_comma_pngUrl pngFile_def)

subsection \<open>Selecting an image\<close>

text \<open>
  Claim C10. \<^verbatim>\<open>handleImageUpload\<close> leaves the prompt unchanged, for every session
  state and every selected file (and when no file was chosen): its synchronous part
  clears the prior result and error and replaces \<^verbatim>\<open>originalFile\<close>, and its
  continuation, which replaces \<^verbatim>\<open>originalImage\<close> when the read succeeds and sets the
  error when it fails, does not touch the prompt either.
\<close>

theorem select_image_preserves_prompt:
  "prompt (fst (handleImageUpload fo s)) = prompt s \<and>
   handleImageUpload (Some f) s =
     (s\<lparr>error := None, editedImage := None, originalFile := Some f\<rparr>, [AwaitUploadRead]) \<and>
   prompt (fst (resume AwaitUploadRead out s1)) = prompt s1 \<and>
   fst (resume AwaitUploadRead (Fulfilled url) s1) = s1\<lparr>originalImage := Some url\<rparr>"
proof -
  have "prompt (fst (handleImageUpload fo s)) = prompt s"
    by (cases fo) (simp_all add: handleImageUpload_def)
  moreover have "prompt (fst (resume AwaitUploadRead out s1)) = prompt s1"
    by (cases out) simp_all
  ultimately show ?thesis
    by (simp add: handleImageUpload_def)
qed

theorem select_image_preserves_prompt_witness:
  "fst (handleImageUpload (Some gifFile) (sess (run start successEvents))) =
     \<lparr>originalImage = Some pngUrl, originalFile = Some gifFile, editedImage = None,
      prompt = ''add a hat'', isLoading = False, error = None\<rparr> \<and>
   prompt (fst (resume AwaitUploadRead (Fulfilled ''data:image/gif;base64,R0lG'')
     (fst (handleImageUpload (Some gifFile) (sess (run start successEvents)))))) = ''add a hat''"
  using select_image_preserves_prompt [of "Some gifFile" "sess (run start successEvents)" gifFile
      "Fulfilled ''data:image/gif;base64,R0lG''"
      "fst (handleImageUpload (Some gifFile) (sess (run start successEvents)))"]
  by (simp add: run_successEvents)

end
